theory Spec2Isabelle
  imports Complex_Main
begin

section \<open>Python values\<close>

text \<open>
  A Python \<open>str\<close> is a sequence of Unicode code points; distances and comparisons of
  the program count code points, so a string is a list of code point numbers.
\<close>

type_synonym pystr = "nat list"

definition str :: "string \<Rightarrow> pystr" where
  "str cs = map of_char cs"

text \<open>
  A Python \<open>float\<close> is an IEEE binary64 value: a finite value (kept as the rational it
  denotes), an infinity, or not-a-number. The sign of a zero is not kept: Python raises on
  a division by either zero, and no other operation of the program tells them apart.
\<close>

datatype pyfloat = Finite rat | PInf | NInf | NaN

definition round_half_even :: "rat \<Rightarrow> int" where
  "round_half_even x =
     (let f = \<lfloor>x\<rfloor>; d = x - of_int f
      in if d < 1 / 2 then f
         else if 1 / 2 < d then f + 1
         else if even f then f else f + 1)"

fun bit_length :: "nat \<Rightarrow> nat" where
  "bit_length n = (if n = 0 then 0 else Suc (bit_length (n div 2)))"

definition pow2 :: "int \<Rightarrow> rat" where
  "pow2 e = (if 0 \<le> e then 2 ^ nat e else 1 / 2 ^ nat (- e))"

definition binary_exponent :: "rat \<Rightarrow> int" where
  \<comment> \<open>for \<open>0 < x\<close>: the \<open>e\<close> with \<open>2 ^ e \<le> x < 2 ^ (e + 1)\<close>\<close>
  "binary_exponent x =
     (let (p, q) = quotient_of x;
          d = int (bit_length (nat p)) - int (bit_length (nat q))
      in if pow2 d \<le> x then d else d - 1)"

definition to_double_pos :: "rat \<Rightarrow> pyfloat" where
  \<comment> \<open>round-to-nearest, ties-to-even, into binary64, for \<open>0 < x\<close>: 53 significant bits,
      least quantum \<open>2 ^ -1074\<close>, largest finite value \<open>(2 ^ 53 - 1) * 2 ^ 971\<close>\<close>
  "to_double_pos x =
     (let e = binary_exponent x;
          qe = max (e - 52) (- 1074);
          m = round_half_even (x / pow2 qe)
      in if 1023 < e \<or> (e = 1023 \<and> m = 2 ^ 53) then PInf
         else Finite (of_int m * pow2 qe))"

definition float_neg :: "pyfloat \<Rightarrow> pyfloat" where
  "float_neg x = (case x of Finite q \<Rightarrow> Finite (- q) | PInf \<Rightarrow> NInf | NInf \<Rightarrow> PInf | NaN \<Rightarrow> NaN)"

definition to_double :: "rat \<Rightarrow> pyfloat" where
  "to_double x =
     (if x = 0 then Finite 0
      else if 0 < x then to_double_pos x
      else float_neg (to_double_pos (- x)))"

definition float_sign :: "pyfloat \<Rightarrow> int" where
  "float_sign x = (case x of Finite q \<Rightarrow> (if 0 < q then 1 else if q < 0 then - 1 else 0)
                   | PInf \<Rightarrow> 1 | NInf \<Rightarrow> - 1 | NaN \<Rightarrow> 0)"

definition float_inf :: "int \<Rightarrow> pyfloat" where
  "float_inf s = (if 0 < s then PInf else NInf)"

text \<open>Exceptions of the program: the repository's own \<open>APIException\<close>, told apart by its
  message, and the built-in exceptions the modelled code can raise: \<open>IndexError\<close> on
  indexing an empty list, \<open>ZeroDivisionError\<close>, and \<open>AttributeError\<close> on calling a
  method of \<open>None\<close>.\<close>

datatype feed = VocabularyFeed | RatesFeed

datatype api_message =
    InvalidAmountFormat
  | NonPositiveAmount
  | UnknownTarget pystr
  | UnknownSource pystr
  | SameCurrency
  | UpstreamFetchError feed
  | UpstreamParseError feed

datatype exn = APIException api_message | IndexError | ZeroDivisionError | AttributeError

definition float_le_zero :: "pyfloat \<Rightarrow> bool" where
  \<comment> \<open>\<open>x <= 0\<close>; every comparison with not-a-number is false\<close>
  "float_le_zero x = (case x of Finite q \<Rightarrow> q \<le> 0 | PInf \<Rightarrow> False | NInf \<Rightarrow> True | NaN \<Rightarrow> False)"

definition float_gt_zero :: "pyfloat \<Rightarrow> bool" where
  \<comment> \<open>\<open>x > 0\<close>\<close>
  "float_gt_zero x = (case x of Finite q \<Rightarrow> 0 < q | PInf \<Rightarrow> True | NInf \<Rightarrow> False | NaN \<Rightarrow> False)"

definition float_div :: "pyfloat \<Rightarrow> pyfloat \<Rightarrow> exn + pyfloat" where
  \<comment> \<open>\<open>a / b\<close>: Python checks the divisor first and raises on zero\<close>
  "float_div a b =
     (if b = Finite 0 then Inl ZeroDivisionError
      else if a = NaN \<or> b = NaN then Inr NaN
      else (case (a, b) of
              (Finite x, Finite y) \<Rightarrow> Inr (to_double (x / y))
            | (Finite x, _) \<Rightarrow> Inr (Finite 0)
            | (_, Finite y) \<Rightarrow> Inr (float_inf (float_sign a * float_sign b))
            | _ \<Rightarrow> Inr NaN))"

definition float_mul :: "pyfloat \<Rightarrow> pyfloat \<Rightarrow> pyfloat" where
  \<comment> \<open>\<open>a * b\<close>\<close>
  "float_mul a b =
     (if a = NaN \<or> b = NaN then NaN
      else (case (a, b) of
              (Finite x, Finite y) \<Rightarrow> to_double (x * y)
            | _ \<Rightarrow> if a = Finite 0 \<or> b = Finite 0 then NaN
                   else float_inf (float_sign a * float_sign b)))"

definition float_round :: "pyfloat \<Rightarrow> nat \<Rightarrow> pyfloat" where
  \<comment> \<open>\<open>round(x, ndigits)\<close> for small \<open>ndigits \<ge> 0\<close>: infinities and not-a-number round to
      themselves; a finite value is rounded, on its exact value and ties to even, to
      \<open>ndigits\<close> decimals, and the decimal is read back as the nearest binary64\<close>
  "float_round x ndigits =
     (case x of
        Finite q \<Rightarrow> to_double (of_int (round_half_even (q * 10 ^ ndigits)) / 10 ^ ndigits)
      | _ \<Rightarrow> x)"


section \<open>Data model\<close>

text \<open>
  One dictionary of the snapshot: the keys \<open>code\<close>, \<open>rus_name\<close>, \<open>eng_name\<close>, \<open>rub_rate\<close>.
  The first three hold the \<open>text\<close> of an XML element, which is a string or, for an
  element with no text, \<open>None\<close>; the rate is always a float.
\<close>

record currency =
  code :: "pystr option"
  rus_name :: "pystr option"
  eng_name :: "pystr option"
  rub_rate :: pyfloat

text \<open>
  A dictionary of the vocabulary: it is created with the two names only, and \<open>fill\<close>
  assigns \<open>code\<close> and \<open>rub_rate\<close> to it in place, so these two keys are absent
  (the outer \<open>None\<close>) until then. The vocabulary is keyed by the \<open>ID\<close> attribute, which
  is \<open>None\<close> on an element without it.
\<close>

record voc_entry =
  voc_rus_name :: "pystr option"
  voc_eng_name :: "pystr option"
  voc_code :: "pystr option option"
  voc_rub_rate :: "pyfloat option"

type_synonym ident = "pystr option"
type_synonym vocabulary = "ident \<rightharpoonup> voc_entry"

text \<open>
  What a request to a feed gives: no answer (\<open>requests.RequestException\<close>), a text
  that is not XML (\<open>ETree.fromstring\<close> raises), or a document, of which the elements
  iterated over are kept. What \<open>find\<close> gives for a child element is \<open>NoChild\<close> when the
  element has no such child (\<open>find\<close> returns \<open>None\<close>, and reading \<open>text\<close> of it raises
  \<open>AttributeError\<close>), and otherwise the child with its \<open>text\<close>: a string, or \<open>None\<close> for
  an element with no text such as \<open><CharCode/>\<close>.
\<close>

datatype 'a response = Unreachable | Unparsable | Document 'a

datatype child = NoChild | Child "pystr option"

record voc_item =
  item_id :: ident
  item_name :: child
  item_eng_name :: child

record valute =
  valute_id :: ident
  char_code :: child
  vunit_rate :: child

text \<open>
  The world outside the repository: the clock (as the string \<open>current_date\<close> formats it),
  the two feeds (the rates feed by the date of its URL), and two Python built-ins:
  \<open>str.lower\<close>, whose table is not written out here, and \<open>float\<close> of a string
  (\<open>None\<close> for \<open>ValueError\<close>), which \<open>float_str\<close> below writes out. One environment
  stands for the time of one request.
\<close>

record env =
  current_date :: pystr
  vocabulary_feed :: "voc_item list response"
  rates_feed :: "pystr \<Rightarrow> valute list response"
  lower :: "pystr \<Rightarrow> pystr"
  float_of_str :: "pystr \<Rightarrow> pyfloat option"

text \<open>
  The object \<open>RatesStorage\<close>. \<open>requests_sent\<close> is not a field of the class: it counts
  the calls of \<open>requests.get\<close> made so far, so that claims about fetching can be stated.
\<close>

record rates_storage =
  data_write_only :: "currency list"
  data_read_only :: "currency list"
  cached_date :: "pystr option"
  requests_sent :: nat

section \<open>RatesStorage\<close>

definition init :: rates_storage where
  "init = \<lparr>data_write_only = [], data_read_only = [], cached_date = None, requests_sent = 0\<rparr>"

definition reset :: "rates_storage \<Rightarrow> rates_storage" where
  "reset st = st\<lparr>data_write_only := [], data_read_only := [], cached_date := None\<rparr>"

fun voc_loop :: "vocabulary \<Rightarrow> voc_item list \<Rightarrow> exn + vocabulary" where
  "voc_loop result [] = Inr result"
| "voc_loop result (item # items) =
     (case item_name item of
        NoChild \<Rightarrow> Inl (APIException (UpstreamParseError VocabularyFeed))
      | Child rn \<Rightarrow>
          (case item_eng_name item of
             NoChild \<Rightarrow> Inl (APIException (UpstreamParseError VocabularyFeed))
           | Child en \<Rightarrow>
               voc_loop
                 (result(item_id item \<mapsto>
                    \<lparr>voc_rus_name = rn, voc_eng_name = en, voc_code = None, voc_rub_rate = None\<rparr>))
                 items))"

definition get_vocabulary :: "env \<Rightarrow> exn + vocabulary" where
  "get_vocabulary e =
     (case vocabulary_feed e of
        Unreachable \<Rightarrow> Inl (APIException (UpstreamFetchError VocabularyFeed))
      | Unparsable \<Rightarrow> Inl (APIException (UpstreamParseError VocabularyFeed))
      | Document items \<Rightarrow> voc_loop Map.empty items)"

definition replace_comma :: "pystr \<Rightarrow> pystr" where
  \<comment> \<open>\<open>.replace(",", ".")\<close>\<close>
  "replace_comma s = map (\<lambda>c. if c = 44 then 46 else c) s"

text \<open>
  The loop of \<open>fill\<close>. The list \<open>_data_write_only\<close> receives the dictionaries of the
  vocabulary themselves, not copies, so an \<open>ID\<close> that comes twice puts the same
  dictionary twice in the list, and the later assignments show in both places. The loop
  therefore keeps the vocabulary (the dictionaries, by key) and the keys appended so far;
  the Boolean tells whether the loop ran to its end or an exception stopped it. The
  exceptions are \<open>KeyError\<close> for an \<open>ID\<close> the vocabulary does not have, \<open>AttributeError\<close>
  for a missing child and for \<open>replace\<close> on the \<open>None\<close> of a \<open>VunitRate\<close> with no text,
  and \<open>ValueError\<close> of \<open>float\<close>. The \<open>text\<close> of \<open>CharCode\<close> is stored as it is, \<open>None\<close>
  included.
\<close>

fun fill_loop :: "env \<Rightarrow> vocabulary \<Rightarrow> ident list \<Rightarrow> valute list \<Rightarrow> bool \<times> vocabulary \<times> ident list" where
  "fill_loop e voc refs [] = (True, voc, refs)"
| "fill_loop e voc refs (item # items) =
     (case voc (valute_id item) of
        None \<Rightarrow> (False, voc, refs)
      | Some currency_data \<Rightarrow>
          (case char_code item of
             NoChild \<Rightarrow> (False, voc, refs)
           | Child c \<Rightarrow>
               (let voc1 = voc(valute_id item \<mapsto> currency_data\<lparr>voc_code := Some c\<rparr>)
                in case vunit_rate item of
                     NoChild \<Rightarrow> (False, voc1, refs)
                   | Child None \<Rightarrow> (False, voc1, refs)
                   | Child (Some t) \<Rightarrow>
                       (case float_of_str e (replace_comma t) of
                          None \<Rightarrow> (False, voc1, refs)
                        | Some r \<Rightarrow>
                            fill_loop e
                              (voc1(valute_id item \<mapsto>
                                 currency_data\<lparr>voc_code := Some c, voc_rub_rate := Some r\<rparr>))
                              (refs @ [valute_id item]) items))))"

definition currency_of :: "voc_entry \<Rightarrow> currency option" where
  "currency_of d =
     (case (voc_code d, voc_rub_rate d) of
        (Some c, Some r) \<Rightarrow>
          Some \<lparr>code = c, rus_name = voc_rus_name d, eng_name = voc_eng_name d, rub_rate = r\<rparr>
      | _ \<Rightarrow> None)"

definition contents :: "vocabulary \<Rightarrow> ident list \<Rightarrow> currency list" where
  \<comment> \<open>the dictionaries a list of references stands for\<close>
  "contents voc refs = List.map_filter (\<lambda>i. Option.bind (voc i) currency_of) refs"

definition ruble :: currency where
  "ruble = \<lparr>code = Some (str ''RUR''),
            rus_name = Some [1056, 1086, 1089, 1089, 1080, 1081, 1089, 1082, 1080, 1081, 32,
                             1088, 1091, 1073, 1083, 1100],
            eng_name = Some (str ''Russian Ruble''),
            rub_rate = Finite 1\<rparr>"

definition fill :: "env \<Rightarrow> rates_storage \<Rightarrow> (exn + unit) \<times> rates_storage" where
  "fill e st0 =
     (let st1 = (reset st0)\<lparr>cached_date := Some (current_date e)\<rparr>;
          st2 = st1\<lparr>requests_sent := requests_sent st1 + 1\<rparr>
      in case get_vocabulary e of
           Inl x \<Rightarrow> (Inl x, st2)
         | Inr voc \<Rightarrow>
             (let st3 = st2\<lparr>requests_sent := requests_sent st2 + 1\<rparr>
              in case rates_feed e (current_date e) of
                   Unreachable \<Rightarrow> (Inl (APIException (UpstreamFetchError RatesFeed)), st3)
                 | Unparsable \<Rightarrow> (Inl (APIException (UpstreamParseError RatesFeed)), st3)
                 | Document items \<Rightarrow>
                     (case fill_loop e voc [] items of
                        (False, voc', refs) \<Rightarrow>
                          (Inl (APIException (UpstreamParseError RatesFeed)),
                           st3\<lparr>data_write_only := contents voc' refs\<rparr>)
                      | (True, voc', refs) \<Rightarrow>
                          (let w = contents voc' refs @ [ruble]
                           in (Inr (), st3\<lparr>data_write_only := w, data_read_only := w\<rparr>)))))"

definition lists_match :: "currency list \<Rightarrow> currency list \<Rightarrow> bool" where
  "lists_match l1 l2 =
     (if length l1 \<noteq> length l2 then False else list_all (\<lambda>(x, y). x = y) (zip l1 l2))"

definition data :: "env \<Rightarrow> rates_storage \<Rightarrow> (exn + currency list) \<times> rates_storage" where
  "data e st0 =
     (case (if Some (current_date e) \<noteq> cached_date st0 then fill e st0 else (Inr (), st0)) of
        (Inl x, st1) \<Rightarrow> (Inl x, st1)
      | (Inr u, st1) \<Rightarrow>
          (let st2 = (if \<not> lists_match (data_write_only st1) (data_read_only st1)
                      then st1\<lparr>data_read_only := data_write_only st1\<rparr> else st1)
           in (Inr (data_read_only st2), st2)))"


text \<open>
  \<open>find_currency_by_code\<close> compares the \<open>code\<close> of each record with the argument by
  \<open>==\<close>. The argument is annotated as a string; the one caller in the repository passes
  the \<open>code\<close> of a record, so it is taken here as what such a field holds.
\<close>

definition find_currency_by_code ::
  "env \<Rightarrow> rates_storage \<Rightarrow> pystr option \<Rightarrow> (exn + currency option) \<times> rates_storage" where
  "find_currency_by_code e st c =
     (case data e st of
        (Inl x, st1) \<Rightarrow> (Inl x, st1)
      | (Inr d, st1) \<Rightarrow>
          (case filter (\<lambda>currency. code currency = c) d of
             [] \<Rightarrow> (Inr None, st1)
           | r # rest \<Rightarrow> (Inr (Some r), st1)))"

text \<open>
  \<open>distance\<close> of the library \<open>Levenshtein\<close>: the least number of insertions, deletions
  and substitutions of one element that turn one sequence into the other.
\<close>

fun distance :: "'a list \<Rightarrow> 'a list \<Rightarrow> nat" where
  "distance [] ys = length ys"
| "distance xs [] = length xs"
| "distance (x # xs) (y # ys) =
     min (min (distance xs (y # ys) + 1) (distance (x # xs) ys + 1))
         (distance xs ys + (if x = y then 0 else 1))"

text \<open>
  \<open>field.lower()\<close> on a field of a record: \<open>AttributeError\<close> when the field is \<open>None\<close>.
\<close>

definition lower_field :: "env \<Rightarrow> pystr option \<Rightarrow> exn + pystr" where
  "lower_field e field = (case field of None \<Rightarrow> Inl AttributeError | Some s \<Rightarrow> Inr (lower e s))"

text \<open>
  The comparator evaluates its three comparisons from left to right and stops at the
  first that holds, as \<open>or\<close> does: a later field is lowered only when the earlier ones
  did not match.
\<close>

definition equality_comparator :: "env \<Rightarrow> currency \<Rightarrow> pystr \<Rightarrow> exn + bool" where
  "equality_comparator e currency request =
     (let lower_request = lower e request
      in case lower_field e (code currency) of
           Inl x \<Rightarrow> Inl x
         | Inr c \<Rightarrow>
             if c = lower_request then Inr True
             else (case lower_field e (rus_name currency) of
                     Inl x \<Rightarrow> Inl x
                   | Inr rn \<Rightarrow>
                       if rn = lower_request then Inr True
                       else (case lower_field e (eng_name currency) of
                               Inl x \<Rightarrow> Inl x
                             | Inr en \<Rightarrow> Inr (en = lower_request))))"

text \<open>
  \<open>list(filter(f, xs))\<close> and a loop that appends \<open>f(x)\<close> for each \<open>x\<close>, for an \<open>f\<close> that
  may raise: every element is visited in order, and the first exception ends the run.
\<close>

fun filter_raising :: "('a \<Rightarrow> exn + bool) \<Rightarrow> 'a list \<Rightarrow> exn + 'a list" where
  "filter_raising f [] = Inr []"
| "filter_raising f (x # xs) =
     (case f x of
        Inl err \<Rightarrow> Inl err
      | Inr b \<Rightarrow>
          (case filter_raising f xs of
             Inl err \<Rightarrow> Inl err
           | Inr ys \<Rightarrow> Inr (if b then x # ys else ys)))"

fun map_raising :: "('a \<Rightarrow> exn + 'b) \<Rightarrow> 'a list \<Rightarrow> exn + 'b list" where
  "map_raising f [] = Inr []"
| "map_raising f (x # xs) =
     (case f x of
        Inl err \<Rightarrow> Inl err
      | Inr y \<Rightarrow>
          (case map_raising f xs of
             Inl err \<Rightarrow> Inl err
           | Inr ys \<Rightarrow> Inr (y # ys)))"

text \<open>One dictionary of \<open>lev_distances\<close>: the keys \<open>code\<close> and \<open>distance\<close>.\<close>

record lev_entry =
  lev_code :: "pystr option"
  lev_distance :: nat

definition lev_of :: "env \<Rightarrow> pystr \<Rightarrow> currency \<Rightarrow> exn + lev_entry" where
  "lev_of e request currency =
     (case lower_field e (rus_name currency) of
        Inl x \<Rightarrow> Inl x
      | Inr rn \<Rightarrow>
          (let rus_distance = distance rn (lower e request)
           in case lower_field e (eng_name currency) of
                Inl x \<Rightarrow> Inl x
              | Inr en \<Rightarrow>
                  (let eng_distance = distance en (lower e request)
                   in Inr \<lparr>lev_code = code currency,
                           lev_distance = min rus_distance eng_distance\<rparr>)))"

text \<open>
  \<open>get_currency_data\<close> reads the property \<open>data\<close> once for the exact match, once for the
  distances, and once more inside \<open>find_currency_by_code\<close>. \<open>list.sort\<close> is stable, as
  \<open>sort_key\<close> is; indexing the empty list raises \<open>IndexError\<close>.
\<close>

definition get_currency_data ::
  "env \<Rightarrow> rates_storage \<Rightarrow> pystr \<Rightarrow> (exn + currency option) \<times> rates_storage" where
  "get_currency_data e st request =
     (case data e st of
        (Inl x, st1) \<Rightarrow> (Inl x, st1)
      | (Inr d1, st1) \<Rightarrow>
          (case filter_raising (\<lambda>currency. equality_comparator e currency request) d1 of
             Inl x \<Rightarrow> (Inl x, st1)
           | Inr (r # rest) \<Rightarrow> (Inr (Some r), st1)
           | Inr [] \<Rightarrow>
               (case data e st1 of
                  (Inl x, st2) \<Rightarrow> (Inl x, st2)
                | (Inr d2, st2) \<Rightarrow>
                    (case map_raising (lev_of e request) d2 of
                       Inl x \<Rightarrow> (Inl x, st2)
                     | Inr lev_distances \<Rightarrow>
                         (case sort_key lev_distance lev_distances of
                            [] \<Rightarrow> (Inl IndexError, st2)
                          | first # others \<Rightarrow>
                              if lev_distance first \<le> 3
                              then find_currency_by_code e st2 (lev_code first)
                              else (Inr None, st2))))))"

section \<open>API\<close>

text \<open>
  What \<open>get_price\<close> returns: the sentence with the amount, the target currency, the
  converted amount and the source currency (its text is a fixed rendering of these four),
  or the message of an \<open>APIException\<close>. The class attribute \<open>API.storage\<close> is absent
  (\<open>None\<close>) until the first request creates it. An exception other than \<open>APIException\<close>
  is not caught.
\<close>

datatype reply = Price pyfloat currency pyfloat currency | Failure api_message

definition uncaught :: "exn \<Rightarrow> exn + reply" where
  "uncaught x = (case x of APIException m \<Rightarrow> Inr (Failure m) | _ \<Rightarrow> Inl x)"

definition get_price ::
  "env \<Rightarrow> rates_storage option \<Rightarrow> pystr \<Rightarrow> pystr \<Rightarrow> pystr \<Rightarrow> (exn + reply) \<times> rates_storage option" where
  "get_price e api base quote amount_text =
     (let storage = (case api of None \<Rightarrow> init | Some s \<Rightarrow> s)
      in case float_of_str e amount_text of
           None \<Rightarrow> (Inr (Failure InvalidAmountFormat), Some storage)
         | Some amount \<Rightarrow>
             if float_le_zero amount then (Inr (Failure NonPositiveAmount), Some storage)
             else
               (case get_currency_data e storage base of
                  (Inl x, st1) \<Rightarrow> (uncaught x, Some st1)
                | (Inr None, st1) \<Rightarrow> (Inr (Failure (UnknownTarget base)), Some st1)
                | (Inr (Some base_data), st1) \<Rightarrow>
                    (case get_currency_data e st1 quote of
                       (Inl x, st2) \<Rightarrow> (uncaught x, Some st2)
                     | (Inr None, st2) \<Rightarrow> (Inr (Failure (UnknownSource quote)), Some st2)
                     | (Inr (Some quote_data), st2) \<Rightarrow>
                         if code base_data = code quote_data
                         then (Inr (Failure SameCurrency), Some st2)
                         else
                           (case float_div (rub_rate base_data) (rub_rate quote_data) of
                              Inl x \<Rightarrow> (uncaught x, Some st2)
                            | Inr ratio \<Rightarrow>
                                (Inr (Price amount base_data
                                        (float_round (float_mul ratio amount) 2) quote_data),
                                 Some st2)))))"

section \<open>The built-in float on a string\<close>

text \<open>
  \<open>float(s)\<close> as CPython 3.11 computes it for a string. Outside ASCII, a white-space
  character becomes a space and a decimal digit (Unicode 14.0, category \<open>Nd\<close>: runs of
  ten code points from the zeros listed) becomes its ASCII digit; any other character
  makes the string invalid. White space is stripped at both ends. An underscore must
  stand between two digits and is dropped. What is left is an optional sign and then
  \<open>inf\<close>, \<open>infinity\<close> or \<open>nan\<close> in any case, or a decimal numeral: digits with at most one
  point and at least one digit, and an optional exponent, \<open>e\<close> or \<open>E\<close> with an optional
  sign and at least one digit. The value is the decimal rounded to the nearest binary64,
  ties to even, an infinity beyond the range. \<open>None\<close> stands for \<open>ValueError\<close>.
\<close>

definition decimal_zeros :: "nat list" where
  "decimal_zeros =
     [1632, 1776, 1984, 2406, 2534, 2662, 2790, 2918, 3046, 3174, 3302, 3430, 3558, 3664,
      3792, 3872, 4160, 4240, 6112, 6160, 6470, 6608, 6784, 6800, 6992, 7088, 7232, 7248,
      42528, 43216, 43264, 43472, 43504, 43600, 44016, 65296, 66720, 68912, 69734, 69872,
      69942, 70096, 70384, 70736, 70864, 71248, 71360, 71472, 71904, 72016, 72784, 73040,
      73120, 92768, 92864, 93008, 120782, 120792, 120802, 120812, 120822, 123200, 123632,
      125264, 130032]"

definition to_ascii :: "nat \<Rightarrow> nat" where
  "to_ascii c =
     (if c < 127 then c
      else if c \<in> set [133, 160, 5760, 8232, 8233, 8239, 8287, 12288] \<or> (8192 \<le> c \<and> c \<le> 8202)
      then 32
      else (case filter (\<lambda>z. z \<le> c \<and> c \<le> z + 9) decimal_zeros of
              z # zs \<Rightarrow> 48 + (c - z)
            | [] \<Rightarrow> 63))"

definition is_space :: "nat \<Rightarrow> bool" where
  "is_space c = (c = 32 \<or> (9 \<le> c \<and> c \<le> 13))"

definition is_digit :: "nat \<Rightarrow> bool" where
  "is_digit c = (48 \<le> c \<and> c \<le> 57)"

fun drop_underscores :: "nat \<Rightarrow> pystr \<Rightarrow> pystr option" where
  \<comment> \<open>the first argument is the character before, 0 at the start\<close>
  "drop_underscores prev [] = (if prev = 95 then None else Some [])"
| "drop_underscores prev (c # cs) =
     (if c = 95 then (if is_digit prev then drop_underscores c cs else None)
      else if prev = 95 \<and> \<not> is_digit c then None
      else map_option ((#) c) (drop_underscores c cs))"

definition digits_value :: "pystr \<Rightarrow> nat" where
  "digits_value ds = foldl (\<lambda>n c. 10 * n + (c - 48)) 0 ds"

definition split_sign :: "pystr \<Rightarrow> bool \<times> pystr" where
  \<comment> \<open>an optional sign: whether it is a minus, and the rest\<close>
  "split_sign s =
     (case s of
        [] \<Rightarrow> (False, [])
      | c # t \<Rightarrow> if c = 45 then (True, t) else if c = 43 then (False, t) else (False, s))"

definition exponent_value :: "pystr \<Rightarrow> int option" where
  \<comment> \<open>what follows the mantissa: nothing, or an exponent\<close>
  "exponent_value s =
     (case s of
        [] \<Rightarrow> Some 0
      | c # t \<Rightarrow>
          if c = 101 \<or> c = 69
          then (case split_sign t of
                  (neg, ds) \<Rightarrow>
                    if ds \<noteq> [] \<and> list_all is_digit ds
                    then Some (if neg then - int (digits_value ds) else int (digits_value ds))
                    else None)
          else None)"

definition pow10 :: "int \<Rightarrow> rat" where
  "pow10 x = (if 0 \<le> x then 10 ^ nat x else 1 / 10 ^ nat (- x))"

definition float_str :: "pystr \<Rightarrow> pyfloat option" where
  "float_str s =
     (case drop_underscores 0
             (rev (dropWhile is_space (rev (dropWhile is_space (map to_ascii s))))) of
        None \<Rightarrow> None
      | Some t \<Rightarrow>
          (case split_sign t of
             (neg, body) \<Rightarrow>
               (let word = map (\<lambda>c. if 65 \<le> c \<and> c \<le> 90 then c + 32 else c) body
                in if word = str ''inf'' \<or> word = str ''infinity''
                   then Some (if neg then NInf else PInf)
                   else if word = str ''nan'' then Some NaN
                   else
                     (let ip = takeWhile is_digit body;
                          rest = dropWhile is_digit body;
                          fp = (case rest of
                                  [] \<Rightarrow> []
                                | c # r \<Rightarrow> if c = 46 then takeWhile is_digit r else []);
                          tail = (case rest of
                                    [] \<Rightarrow> []
                                  | c # r \<Rightarrow> if c = 46 then dropWhile is_digit r else rest)
                      in if ip = [] \<and> fp = [] then None
                         else (case exponent_value tail of
                                 None \<Rightarrow> None
                               | Some x \<Rightarrow>
                                   Some (to_double
                                     ((if neg then - 1 else 1) *
                                      (of_nat (digits_value ip) +
                                       of_nat (digits_value fp) / 10 ^ length fp) *
                                      pow10 x)))))))"

section \<open>Examples to run the program on\<close>

text \<open>
  \<open>str.lower\<close> on the strings of the examples: \<open>lower_basic\<close> is \<open>str.lower\<close> on strings
  of ASCII and of the Cyrillic block U+0400 to U+045F, the characters the examples are
  written in.
\<close>

definition lower_basic :: "pystr \<Rightarrow> pystr" where
  "lower_basic s =
     map (\<lambda>c. if 65 \<le> c \<and> c \<le> 90 then c + 32
              else if 1040 \<le> c \<and> c \<le> 1071 then c + 32
              else if 1024 \<le> c \<and> c \<le> 1039 then c + 80
              else c) s"

definition example_env :: "voc_item list response \<Rightarrow> valute list response \<Rightarrow> env" where
  "example_env voc rates =
     \<lparr>current_date = str ''04/11/2026'', vocabulary_feed = voc, rates_feed = (\<lambda>d. rates),
      lower = lower_basic, float_of_str = float_str\<rparr>"

definition usd :: currency where
  "usd = \<lparr>code = Some (str ''USD''),
          rus_name = Some [1044, 1086, 1083, 1083, 1072, 1088, 32, 1057, 1064, 1040],
          eng_name = Some (str ''US Dollar''), rub_rate = Finite 90\<rparr>"

definition eur :: currency where
  "eur = \<lparr>code = Some (str ''EUR''), rus_name = Some [1045, 1074, 1088, 1086],
          eng_name = Some (str ''Euro''), rub_rate = Finite 100\<rparr>"

definition voc_of :: "string \<Rightarrow> currency \<Rightarrow> voc_item" where
  "voc_of i r =
     \<lparr>item_id = Some (str i), item_name = Child (rus_name r), item_eng_name = Child (eng_name r)\<rparr>"

definition valute_of :: "string \<Rightarrow> string \<Rightarrow> string \<Rightarrow> valute" where
  "valute_of i c v =
     \<lparr>valute_id = Some (str i), char_code = Child (Some (str c)), vunit_rate = Child (Some (str v))\<rparr>"

text \<open>A day on which both feeds answer, with two currencies.\<close>

definition env_ok :: env where
  "env_ok = example_env (Document [voc_of ''R01235'' usd, voc_of ''R01239'' eur])
              (Document [valute_of ''R01235'' ''USD'' ''90,0'', valute_of ''R01239'' ''EUR'' ''100,0''])"

definition st_ok :: rates_storage where
  "st_ok = \<lparr>data_write_only = [usd, eur, ruble], data_read_only = [usd, eur, ruble],
            cached_date = Some (str ''04/11/2026''), requests_sent = 2\<rparr>"

text \<open>The same day with the vocabulary feed out of reach.\<close>

definition env_down :: env where
  "env_down = example_env Unreachable
                (Document [valute_of ''R01235'' ''USD'' ''90,0'', valute_of ''R01239'' ''EUR'' ''100,0''])"

definition st_down :: rates_storage where
  "st_down = \<lparr>data_write_only = [], data_read_only = [],
              cached_date = Some (str ''04/11/2026''), requests_sent = 1\<rparr>"

text \<open>A rates feed whose second entry has an \<open>ID\<close> the vocabulary does not know.\<close>

definition env_partial :: env where
  "env_partial = example_env (Document [voc_of ''R01235'' usd])
                   (Document [valute_of ''R01235'' ''USD'' ''90,0'', valute_of ''R01239'' ''EUR'' ''100,0''])"

definition st_partial :: rates_storage where
  "st_partial = \<lparr>data_write_only = [usd], data_read_only = [],
                 cached_date = Some (str ''04/11/2026''), requests_sent = 2\<rparr>"

text \<open>A rates feed that gives the code \<open>EUR\<close> to two entries.\<close>

definition yen_as_eur :: currency where
  "yen_as_eur = \<lparr>code = Some (str ''EUR''), rus_name = Some [1048, 1077, 1085, 1072],
                 eng_name = Some (str ''Yen''), rub_rate = Finite 60\<rparr>"

definition env_dup :: env where
  "env_dup = example_env (Document [voc_of ''R01239'' eur, voc_of ''R01820'' yen_as_eur])
               (Document [valute_of ''R01239'' ''EUR'' ''100,0'', valute_of ''R01820'' ''EUR'' ''60,0''])"

definition st_dup :: rates_storage where
  "st_dup = \<lparr>data_write_only = [eur, yen_as_eur, ruble], data_read_only = [eur, yen_as_eur, ruble],
             cached_date = Some (str ''04/11/2026''), requests_sent = 2\<rparr>"

text \<open>A rates feed that lists the ruble itself.\<close>

definition env_rur :: env where
  "env_rur = example_env (Document [voc_of ''R00000'' ruble])
               (Document [valute_of ''R00000'' ''RUR'' ''1''])"

definition st_rur :: rates_storage where
  "st_rur = \<lparr>data_write_only = [ruble, ruble], data_read_only = [ruble, ruble],
             cached_date = Some (str ''04/11/2026''), requests_sent = 2\<rparr>"




section \<open>Computing the distance row by row\<close>

text \<open>
  The distances of \<open>xs\<close> to every suffix of \<open>ys\<close>, longest first, computed from the row
  of the tail of \<open>xs\<close>: the usual dynamic program, proved below to give \<open>distance\<close> and
  used to evaluate it.
\<close>

fun tails :: "'a list \<Rightarrow> 'a list list" where
  "tails [] = [[]]"
| "tails (y # ys) = (y # ys) # tails ys"

fun next_row :: "'a \<Rightarrow> nat \<Rightarrow> 'a list \<Rightarrow> nat list \<Rightarrow> nat list" where
  "next_row x n [] prev = [n]"
| "next_row x n (y # ys) prev =
     (case prev of
        p0 # p1 # ps \<Rightarrow>
          (case next_row x n ys (p1 # ps) of
             r0 # rs \<Rightarrow> min (min (p0 + 1) (r0 + 1)) (p1 + (if x = y then 0 else 1)) # r0 # rs
           | [] \<Rightarrow> [])
      | _ \<Rightarrow> [])"

fun distance_rows :: "'a list \<Rightarrow> 'a list \<Rightarrow> nat list" where
  "distance_rows [] ys = map length (tails ys)"
| "distance_rows (x # xs) ys = next_row x (Suc (length xs)) ys (distance_rows xs ys)"

section \<open>What the loop of fill keeps true\<close>

definition filled :: "vocabulary \<Rightarrow> child set \<Rightarrow> ident \<Rightarrow> bool" where
  \<comment> \<open>the dictionary under key \<open>i\<close> has its code, one of \<open>C\<close>, and its rate\<close>
  "filled voc C i =
     (\<exists>d c r. voc i = Some d \<and> voc_code d = Some c \<and> voc_rub_rate d = Some r \<and> Child c \<in> C)"

section \<open>The property data\<close>

lemma lists_match_iff: "lists_match l1 l2 \<longleftrightarrow> l1 = l2"
proof (cases "length l1 = length l2")
  case True
  have "list_all (\<lambda>(x, y). x = y) (zip l1 l2) \<longleftrightarrow> l1 = l2"
    using True by (induction l1 l2 rule: list_induct2) auto
  with True show ?thesis by (simp add: lists_match_def)
next
  case False
  then show ?thesis by (auto simp: lists_match_def)
qed

lemma data_fresh:
  assumes "cached_date st = Some (current_date e)"
  shows "data e st = (Inr (data_write_only st), st\<lparr>data_read_only := data_write_only st\<rparr>)"
  using assms
  by (cases "data_write_only st = data_read_only st") (simp_all add: data_def lists_match_iff)

lemma fill_cached_date: "cached_date (snd (fill e st)) = Some (current_date e)"
  by (simp add: fill_def reset_def Let_def split: sum.splits response.splits prod.splits bool.splits)

lemma data_ok:
  assumes "data e st = (Inr s, st1)"
  shows "cached_date st1 = Some (current_date e)"
    and "data_write_only st1 = s" and "data_read_only st1 = s"
proof -
  obtain r st' where f:
    "(if Some (current_date e) \<noteq> cached_date st then fill e st else (Inr (), st)) = (r, st')"
    by (cases "(if Some (current_date e) \<noteq> cached_date st then fill e st else (Inr (), st))") auto
  have cd: "cached_date st' = Some (current_date e)"
    using f fill_cached_date [of e st] by (auto split: if_splits)
  from assms f obtain u where r: "r = Inr u"
    by (cases r) (auto simp: data_def)
  from assms f r
  have st1: "st1 = (if \<not> lists_match (data_write_only st') (data_read_only st')
                    then st'\<lparr>data_read_only := data_write_only st'\<rparr> else st')"
    and s: "s = data_read_only st1"
    by (auto simp: data_def Let_def)
  show "cached_date st1 = Some (current_date e)" using st1 cd by simp
  show "data_read_only st1 = s" using s by simp
  show "data_write_only st1 = s" using s st1 by (auto simp: lists_match_iff)
qed

lemma data_again:
  assumes "data e st = (Inr s, st1)" and "current_date e' = current_date e"
  shows "data e' st1 = (Inr s, st1)"
proof -
  note d = data_ok [OF assms(1)]
  have "data e' st1 = (Inr (data_write_only st1), st1\<lparr>data_read_only := data_write_only st1\<rparr>)"
    using d(1) assms(2) by (intro data_fresh) simp
  moreover have "st1\<lparr>data_read_only := data_write_only st1\<rparr> = st1"
    using d by simp
  ultimately show ?thesis using d by simp
qed

section \<open>The two lookups, on the snapshot a read returns\<close>

lemma find_filter: "find P xs = (case filter P xs of [] \<Rightarrow> None | r # rest \<Rightarrow> Some r)"
  by (induction xs) auto

lemma find_currency_by_code_read:
  assumes "data e st = (Inr snap, st1)"
  shows "find_currency_by_code e st c = (Inr (find (\<lambda>r. code r = c) snap), st1)"
  using assms by (simp add: find_currency_by_code_def find_filter split: list.splits)

lemma lower_field_Some: "lower_field e (Some s) = Inr (lower e s)"
  by (simp add: lower_field_def)


lemma equality_comparator_no_code:
  assumes "code r = None"
  shows "equality_comparator e r q = Inl AttributeError"
  using assms by (simp add: equality_comparator_def lower_field_def Let_def)

lemma lev_of_strings:
  assumes "rus_name r = Some rn" and "eng_name r = Some en"
  shows "lev_of e q r =
     Inr \<lparr>lev_code = code r,
          lev_distance = min (distance (lower e rn) (lower e q)) (distance (lower e en) (lower e q))\<rparr>"
  using assms by (simp add: lev_of_def lower_field_def Let_def)

lemma filter_raising_total:
  assumes "\<forall>x\<in>set xs. f x = Inr (P x)"
  shows "filter_raising f xs = Inr (filter P xs)"
  using assms by (induction xs) auto

lemma map_raising_total:
  assumes "\<forall>x\<in>set xs. f x = Inr (g x)"
  shows "map_raising f xs = Inr (map g xs)"
  using assms by (induction xs) auto


lemma get_currency_data_fuzzy:
  assumes "data e st = (Inr snap, st1)"
    and "\<forall>r\<in>set snap. equality_comparator e r q = Inr False"
    and "\<forall>r\<in>set snap. lev_of e q r = Inr (g r)"
  shows "get_currency_data e st q =
     (case sort_key lev_distance (map g snap) of
        [] \<Rightarrow> (Inl IndexError, st1)
      | first # others \<Rightarrow>
          if lev_distance first \<le> 3
          then (Inr (find (\<lambda>r. code r = lev_code first) snap), st1)
          else (Inr None, st1))"
proof -
  have again: "data e st1 = (Inr snap, st1)"
    using data_again [OF assms(1)] by simp
  have f: "filter_raising (\<lambda>r. equality_comparator e r q) snap = Inr []"
    using filter_raising_total [OF assms(2)] by simp
  show ?thesis using assms(1) again f map_raising_total [OF assms(3)]
    by (simp add: get_currency_data_def find_currency_by_code_read [OF again] split: list.splits)
qed


text \<open>The head of a stably sorted list is the first element with the least key.\<close>

lemma sort_key_head:
  fixes f :: "'a \<Rightarrow> nat"
  assumes "sort_key f xs = z # zs"
  shows "\<exists>i<length xs. z = xs ! i \<and> (\<forall>j<length xs. f (xs ! i) \<le> f (xs ! j)) \<and>
           (\<forall>j<i. f (xs ! i) < f (xs ! j))"
  using assms
proof (induction xs arbitrary: z zs)
  case Nil
  then show ?case by simp
next
  case (Cons x xs)
  show ?case
  proof (cases "sort_key f xs")
    case Nil
    then have "xs = []" by (metis length_sort list.size(3) length_0_conv)
    with Cons.prems show ?thesis by simp
  next
    case (Cons z' zs')
    from Cons.IH [OF Cons] obtain i where i: "i < length xs" "z' = xs ! i"
      "\<forall>j<length xs. f (xs ! i) \<le> f (xs ! j)" "\<forall>j<i. f (xs ! i) < f (xs ! j)" by blast
    show ?thesis
    proof (cases "f x \<le> f z'")
      case True
      with Cons.prems Cons have "z = x" by simp
      moreover have "\<forall>j<length (x # xs). f x \<le> f ((x # xs) ! j)"
      proof (intro allI impI)
        fix j assume "j < length (x # xs)"
        then show "f x \<le> f ((x # xs) ! j)"
          using True i(2,3) by (cases j) (auto intro: order_trans)
      qed
      ultimately show ?thesis by (intro exI [of _ 0]) simp
    next
      case False
      with Cons.prems Cons have z: "z = z'" by simp
      have "\<forall>j<length (x # xs). f z' \<le> f ((x # xs) ! j)"
      proof (intro allI impI)
        fix j assume "j < length (x # xs)"
        then show "f z' \<le> f ((x # xs) ! j)"
          using False i(2,3) by (cases j) auto
      qed
      moreover have "\<forall>j<Suc i. f z' < f ((x # xs) ! j)"
      proof (intro allI impI)
        fix j assume "j < Suc i"
        then show "f z' < f ((x # xs) ! j)"
          using False i(2,4) by (cases j) auto
      qed
      ultimately show ?thesis using i(1,2) z by (intro exI [of _ "Suc i"]) simp
    qed
  qed
qed

lemma find_distinct_code:
  assumes "distinct (map code snap)" and "i < length snap"
  shows "find (\<lambda>r. code r = code (snap ! i)) snap = Some (snap ! i)"
proof -
  have "\<forall>j<i. code (snap ! j) \<noteq> code (snap ! i)"
    using assms by (auto simp: distinct_conv_nth)
  then show ?thesis using assms(2) by (auto simp: find_Some_iff)
qed

section \<open>The refresh\<close>

lemma fill_loop_filled:
  assumes "fill_loop e voc refs items = (ok, voc', refs')"
    and "\<forall>i\<in>set refs. filled voc C i"
  shows "(\<forall>i\<in>set refs'. filled voc' (C \<union> char_code ` set items) i) \<and>
         (ok \<longrightarrow> length refs' = length refs + length items)"
  using assms
proof (induction items arbitrary: voc refs C)
  case Nil
  then show ?case by simp
next
  case (Cons item items)
  show ?case
  proof (cases "voc (valute_id item)")
    case None
    with Cons.prems show ?thesis by (auto simp: filled_def)
  next
    case (Some d)
    show ?thesis
    proof (cases "char_code item")
      case NoChild
      with Some Cons.prems show ?thesis by (auto simp: filled_def)
    next
      case c: (Child c)
      let ?voc1 = "voc(valute_id item \<mapsto> d\<lparr>voc_code := Some c\<rparr>)"
      have keep: "\<forall>i\<in>set refs. filled ?voc1 (C \<union> char_code ` set (item # items)) i"
        using Cons.prems(2) Some c by (auto simp: filled_def)
      show ?thesis
      proof (cases "vunit_rate item")
        case NoChild
        with Some c Cons.prems(1) keep show ?thesis by auto
      next
        case v: (Child v)
        show ?thesis
        proof (cases v)
          case None
          with v Some c Cons.prems(1) keep show ?thesis by auto
        next
          case t: (Some t)
          show ?thesis
          proof (cases "float_of_str e (replace_comma t)")
            case None
            with Some c v t Cons.prems(1) keep show ?thesis by auto
          next
            case r: (Some r)
            let ?voc2 = "?voc1(valute_id item \<mapsto> d\<lparr>voc_code := Some c, voc_rub_rate := Some r\<rparr>)"
            have run: "fill_loop e ?voc2 (refs @ [valute_id item]) items = (ok, voc', refs')"
              using Some c v t r Cons.prems(1) by (simp add: Let_def)
            have "\<forall>i\<in>set (refs @ [valute_id item]). filled ?voc2 (C \<union> {char_code item}) i"
              using Cons.prems(2) c by (auto simp: filled_def)
            from Cons.IH [OF run this]
            show ?thesis by (simp add: Un_assoc)
          qed
        qed
      qed
    qed
  qed
qed

lemma contents_filled:
  assumes "\<forall>i\<in>set refs. filled voc C i"
  shows "length (contents voc refs) = length refs \<and>
         (\<forall>r\<in>set (contents voc refs). Child (code r) \<in> C)"
  using assms
proof (induction refs)
  case Nil
  show ?case by (simp add: contents_def map_filter_simps)
next
  case (Cons i refs)
  from Cons.prems obtain d c r where
    "voc i = Some d" "voc_code d = Some c" "voc_rub_rate d = Some r" "Child c \<in> C"
    by (auto simp: filled_def)
  then have "contents voc (i # refs) =
      \<lparr>code = c, rus_name = voc_rus_name d, eng_name = voc_eng_name d, rub_rate = r\<rparr> # contents voc refs"
    by (simp add: contents_def map_filter_simps currency_of_def)
  with Cons \<open>Child c \<in> C\<close> show ?case by simp
qed

lemma fill_ok:
  assumes "fill e st = (Inr u, st1)"
  shows "\<exists>items fetched.
           rates_feed e (current_date e) = Document items \<and>
           length fetched = length items \<and>
           (\<forall>r\<in>set fetched. Child (code r) \<in> char_code ` set items) \<and>
           data_write_only st1 = fetched @ [ruble] \<and>
           data_read_only st1 = fetched @ [ruble]"
proof -
  from assms obtain voc where voc: "get_vocabulary e = Inr voc"
    by (cases "get_vocabulary e") (auto simp: fill_def Let_def)
  from assms voc obtain items where items: "rates_feed e (current_date e) = Document items"
    by (cases "rates_feed e (current_date e)") (auto simp: fill_def Let_def)
  obtain ok voc' refs where loop: "fill_loop e voc [] items = (ok, voc', refs)"
    by (cases "fill_loop e voc [] items") auto
  from assms voc items loop have ok: ok
    by (cases ok) (auto simp: fill_def Let_def)
  from fill_loop_filled [OF loop, of "{}"] ok
  have "\<forall>i\<in>set refs. filled voc' (char_code ` set items) i" and len: "length refs = length items"
    by auto
  from contents_filled [OF this(1)] len
  have c: "length (contents voc' refs) = length items"
    "\<forall>r\<in>set (contents voc' refs). Child (code r) \<in> char_code ` set items"
    by auto
  from assms voc items loop ok
  have "data_write_only st1 = contents voc' refs @ [ruble]"
    "data_read_only st1 = contents voc' refs @ [ruble]"
    by (auto simp: fill_def Let_def)
  with items c show ?thesis by blast
qed

section \<open>The distance, row by row\<close>

lemma distance_Nil: "distance xs [] = length xs"
  by (cases xs) simp_all

lemma next_row_distance:
  "next_row x (Suc (length xs)) ys (map (distance xs) (tails ys)) = map (distance (x # xs)) (tails ys)"
proof (induction ys)
  case Nil
  show ?case by simp
next
  case (Cons y ys)
  obtain ts where t: "tails ys = ys # ts" by (cases ys) auto
  show ?case using Cons t by simp
qed

lemma distance_rows_eq: "distance_rows xs ys = map (distance xs) (tails ys)"
proof (induction xs)
  case Nil
  show ?case by simp
next
  case (Cons x xs)
  then show ?case by (simp add: next_row_distance)
qed

lemma distance_by_rows [code]:
  "distance xs ys = (case distance_rows xs ys of d # ds \<Rightarrow> d | [] \<Rightarrow> 0)"
  by (cases ys) (simp_all add: distance_rows_eq)

section \<open>The program on the examples\<close>

lemma data_env_ok: "data env_ok init = (Inr [usd, eur, ruble], st_ok)"
  by code_simp

lemma data_env_down:
  "data env_down init = (Inl (APIException (UpstreamFetchError VocabularyFeed)), st_down)"
  by code_simp

lemma data_env_partial:
  "data env_partial init = (Inl (APIException (UpstreamParseError RatesFeed)), st_partial)"
  by code_simp

lemma data_env_dup: "data env_dup init = (Inr [eur, yen_as_eur, ruble], st_dup)"
  by code_simp

lemma data_env_rur: "data env_rur init = (Inr [ruble, ruble], st_rur)"
  by code_simp


lemma example_date: "current_date (example_env v r) = str ''04/11/2026''"
  by (simp add: example_env_def)


lemma data_st_down: "data env_down st_down = (Inr [], st_down)"
proof -
  have "cached_date st_down = Some (current_date env_down)"
    by (simp add: st_down_def env_down_def example_date)
  from data_fresh [OF this] show ?thesis by (simp add: st_down_def)
qed

lemma data_st_partial:
  "data env_partial st_partial = (Inr [usd], st_partial\<lparr>data_read_only := [usd]\<rparr>)"
proof -
  have "cached_date st_partial = Some (current_date env_partial)"
    by (simp add: st_partial_def env_partial_def example_date)
  from data_fresh [OF this] show ?thesis by (simp add: st_partial_def)
qed

lemma data_st_ok_down: "data env_down st_ok = (Inr [usd, eur, ruble], st_ok)"
  by (rule data_again [OF data_env_ok]) (simp add: env_down_def env_ok_def example_date)

lemma data_st_ok: "data env_ok st_ok = (Inr [usd, eur, ruble], st_ok)"
  by (rule data_again [OF data_env_ok]) simp

section \<open>Claims\<close>




text \<open>
  C3. This is the code at a feed whose second entry names an \<open>ID\<close> that the vocabulary
  does not know. The read that refreshes raises the parse error and leaves the first
  record in \<open>_data_write_only\<close>, with the date of the cache already set. The next read of
  the same day raises nothing, sends no request and returns that one record, a snapshot
  merged in part and without the ruble.
\<close>

theorem failed_refresh_then_partial_snapshot:
  "data env_partial init = (Inl (APIException (UpstreamParseError RatesFeed)), st_partial) \<and>
   data env_partial st_partial = (Inr [usd], st_partial\<lparr>data_read_only := [usd]\<rparr>) \<and>
   requests_sent (snd (data env_partial st_partial)) = requests_sent st_partial"
  using data_env_partial data_st_partial by simp

text \<open>
  C4, as the code has it. \<open>find_currency_by_code\<close> compares the codes as they are, case
  included: it returns the first record of the snapshot whose code is the argument, and
  \<open>None\<close> when there is none.
\<close>

theorem find_currency_by_code_exact:
  assumes "data e st = (Inr snap, st1)"
  shows "find_currency_by_code e st c = (Inr (find (\<lambda>r. code r = c) snap), st1)"
  using assms by (rule find_currency_by_code_read)

theorem find_currency_by_code_exact_witness:
  "data env_ok init = (Inr [usd, eur, ruble], st_ok) \<and>
   find_currency_by_code env_ok init (Some (str ''USD'')) = (Inr (Some usd), st_ok)"
proof -
  have "find (\<lambda>r. code r = Some (str ''USD'')) [usd, eur, ruble] = Some usd"
    by code_simp
  with find_currency_by_code_exact [OF data_env_ok, of "Some (str ''USD'')"] data_env_ok
  show ?thesis by simp
qed

text \<open>
  C4 as stated fails: the snapshot holds the code \<open>USD\<close>, which is \<open>usd\<close> ignoring case,
  and \<open>find_currency_by_code\<close> finds nothing for \<open>usd\<close>.
\<close>

theorem find_currency_by_code_counterexample:
  "data env_ok init = (Inr [usd, eur, ruble], st_ok) \<and>
   code usd = Some (str ''USD'') \<and>
   lower env_ok (str ''USD'') = lower env_ok (str ''usd'') \<and>
   find_currency_by_code env_ok init (Some (str ''usd'')) = (Inr None, st_ok)"
proof -
  have "find (\<lambda>r. code r = Some (str ''usd'')) [usd, eur, ruble] = None"
    by code_simp
  moreover have "lower env_ok (str ''USD'') = lower env_ok (str ''usd'')"
    by code_simp
  moreover have "code usd = Some (str ''USD'')"
    by (simp add: usd_def)
  ultimately show ?thesis
    using find_currency_by_code_read [OF data_env_ok, of "Some (str ''usd'')"] data_env_ok by simp
qed

text \<open>
  C8. When a read returns a snapshot, a second read on the same day, whatever the feeds
  would answer then, returns the same snapshot and leaves the storage as it is; no
  request is sent.
\<close>

theorem data_same_day:
  assumes "data e1 st = (Inr s1, st1)" and "current_date e2 = current_date e1"
  shows "data e2 st1 = (Inr s1, st1) \<and> requests_sent (snd (data e2 st1)) = requests_sent st1"
  using data_again [OF assms] by simp

theorem data_same_day_witness:
  "data env_ok init = (Inr [usd, eur, ruble], st_ok) \<and>
   current_date env_down = current_date env_ok \<and>
   data env_down st_ok = (Inr [usd, eur, ruble], st_ok) \<and>
   requests_sent (snd (data env_down st_ok)) = requests_sent st_ok"
proof -
  have d: "current_date env_down = current_date env_ok"
    by (simp add: env_down_def env_ok_def example_date)
  from data_same_day [OF data_env_ok d] data_env_ok d show ?thesis by simp
qed

text \<open>
  C10. When the snapshot a read returns is empty, \<open>get_currency_data\<close> raises
  \<open>IndexError\<close> for every query, and \<open>get_price\<close>, once the amount has parsed and passed
  the check, lets it through: the result is the exception, not a reply. The storage a
  failed refresh leaves behind, with the date of the cache set, is such a state.
\<close>

theorem get_currency_data_empty_snapshot:
  assumes "data e st = (Inr [], st1)"
  shows "get_currency_data e st q = (Inl IndexError, st1) \<and>
         (float_of_str e t = Some a \<and> \<not> float_le_zero a \<longrightarrow>
            get_price e (Some st) q q' t = (Inl IndexError, Some st1))"
proof -
  have g: "get_currency_data e st q = (Inl IndexError, st1)"
    using get_currency_data_fuzzy [OF assms, of q undefined] by simp
  then show ?thesis by (simp add: get_price_def uncaught_def)
qed

theorem get_currency_data_empty_snapshot_witness:
  "data env_down init = (Inl (APIException (UpstreamFetchError VocabularyFeed)), st_down) \<and>
   data env_down st_down = (Inr [], st_down) \<and>
   float_of_str env_down (str ''5'') = Some (Finite 5) \<and> \<not> float_le_zero (Finite 5) \<and>
   get_currency_data env_down st_down (str ''USD'') = (Inl IndexError, st_down) \<and>
   get_price env_down (Some st_down) (str ''USD'') (str ''EUR'') (str ''5'') =
     (Inl IndexError, Some st_down)"
proof -
  have a: "float_of_str env_down (str ''5'') = Some (Finite 5)"
    by code_simp
  have le: "\<not> float_le_zero (Finite 5)"
    by (simp add: float_le_zero_def)
  from get_currency_data_empty_snapshot
    [OF data_st_down, of "str ''USD''" "str ''5''" "Finite 5" "str ''EUR''"] a le
  show ?thesis using data_env_down data_st_down by simp
qed

end
